theory Spec2Isabelle
  imports Main
begin

section \<open>Request tokens\<close>

text \<open>
  Modelled from the spec: the payload interfaces \<^verbatim>\<open>CredentialVerifyRequestData\<close> and
  \<^verbatim>\<open>CredentialIssueRequestData\<close> are declared in the entity files, which are missing.
  The fields are the ones the service reads (\<^verbatim>\<open>type\<close> and \<^verbatim>\<open>callbackUrl\<close> of both,
  \<^verbatim>\<open>data\<close> of the second) and the spec's signed-request token names: the issuer claim
  \<open>iss\<close>, which is the organization's public UUID, and the time of issuance \<open>iat\<close>, in
  seconds. A claim that is absent is \<open>None\<close>. The type parameter \<^verbatim>\<open>T\<close> of
  \<^verbatim>\<open>decodeAndVerifyJwt\<close> is the extension part of the record.
\<close>

record JwtClaims =
  iss :: "string option"
  iat :: "int option"

record CredentialVerifyRequestData = JwtClaims +
  type :: string
  callbackUrl :: string

record 'd CredentialIssueRequestData = CredentialVerifyRequestData +
  data :: 'd

text \<open>
  A decoded payload is a JSON object or, when the payload segment is not the text of a
  JSON object, the raw string.
\<close>

datatype 'p payload = PayloadString string | PayloadObject 'p

text \<open>
  The signature is symbolic: \<open>HMAC k p\<close> stands for the keyed hash of payload \<open>p\<close> under
  the secret \<open>k\<close>, and two signatures are equal exactly when key and payload are. A string
  that is not a token at all is \<open>NotAJwt\<close>.
\<close>

datatype 'p signature = HMAC string "'p payload"

datatype 'p jwt = NotAJwt | Jws "'p payload" "'p signature"

section \<open>Entities\<close>

text \<open>
  Modelled from the spec: the entity classes \<^verbatim>\<open>Organization\<close>, \<^verbatim>\<open>CredentialType\<close>,
  \<^verbatim>\<open>CredentialVerifyRequest\<close> and \<^verbatim>\<open>CredentialIssueRequest\<close> are imported by the service
  but their files are missing. The fields are those of the spec's data model, under the
  names the service and the controller use for them.
\<close>

record Organization =
  uuid :: string
  sharedSecret :: string

record CredentialType =
  organization :: Organization
  type :: string
  jolocomType :: "string option"

record CredentialVerifyRequest =
  uuid :: string
  requestor :: Organization
  type :: CredentialType
  callbackUrl :: string

record 'd CredentialIssueRequest = CredentialVerifyRequest +
  data :: 'd

text \<open>A JavaScript object carries its class, so a looked-up request is a tagged value.\<close>

datatype 'd Request =
    VerifyRequest CredentialVerifyRequest
  | IssueRequest "'d CredentialIssueRequest"

text \<open>
  What the lookup functions return: \<^verbatim>\<open>null\<close> (returned by the service itself),
  \<^verbatim>\<open>undefined\<close> (what \<^verbatim>\<open>Repository.findOne\<close> resolves to when no row matches), or
  the entity.
\<close>

datatype 'a js_result = Null | Undefined | Found 'a

text \<open>
  Modelled from the spec: the static \<^verbatim>\<open>requestType\<close> constants of the two request
  classes and the derived \<^verbatim>\<open>requestId\<close> getter live in the entity files, which are
  missing. The spec fixes them: the constants are \<^verbatim>\<open>"verify"\<close> and \<^verbatim>\<open>"issue"\<close>, and
  \<^verbatim>\<open>requestId\<close> is \<^verbatim>\<open>"<requestType>:<uuid>"\<close>.
\<close>

definition CredentialVerifyRequest_requestType :: string where
  "CredentialVerifyRequest_requestType = ''verify''"

definition CredentialIssueRequest_requestType :: string where
  "CredentialIssueRequest_requestType = ''issue''"

definition requestId :: "'m CredentialVerifyRequest_scheme \<Rightarrow> string" where
  "requestId r = CredentialVerifyRequest_requestType @ '':'' @ CredentialVerifyRequest.uuid r"

section \<open>Errors\<close>

text \<open>
  Every exception the modelled code can raise. \<open>InvalidRequestJWT\<close> is the class the
  service exports; \<open>EntityNotFound\<close> is what \<^verbatim>\<open>findOneOrFail\<close> rejects with;
  \<open>CouldNotDecodeIssuer\<close> and \<open>StringReturned\<close> are the two plain \<^verbatim>\<open>Error\<close>s thrown inside
  \<^verbatim>\<open>decodeAndVerifyJwt\<close>; \<open>JsonWebTokenError\<close> and \<open>TokenExpiredError\<close> are thrown by the
  token library.
\<close>

datatype error =
    InvalidRequestJWT
  | EntityNotFound
  | CouldNotDecodeIssuer
  | StringReturned
  | JsonWebTokenError
  | TokenExpiredError

section \<open>The repositories and the service state\<close>

record 'd state =
  organizationsRepository :: "Organization list"
  issueRequestsRepository :: "'d CredentialIssueRequest list"
  verifyRequestsRepository :: "CredentialVerifyRequest list"
  typesRepository :: "CredentialType list"
  logger :: "error list"

text \<open>
  \<^verbatim>\<open>Repository.findOne(conditions)\<close> resolves to the first row that satisfies the
  conditions, or to \<^verbatim>\<open>undefined\<close>; \<^verbatim>\<open>findOneOrFail\<close> rejects instead of resolving to
  \<^verbatim>\<open>undefined\<close>.
\<close>

definition findOne :: "('a \<Rightarrow> bool) \<Rightarrow> 'a list \<Rightarrow> 'a js_result" where
  "findOne P rows = (case find P rows of None \<Rightarrow> Undefined | Some x \<Rightarrow> Found x)"

definition findOneOrFail :: "('a \<Rightarrow> bool) \<Rightarrow> 'a list \<Rightarrow> error + 'a" where
  "findOneOrFail P rows = (case find P rows of None \<Rightarrow> Inl EntityNotFound | Some x \<Rightarrow> Inr x)"

definition map_result :: "('a \<Rightarrow> 'b) \<Rightarrow> 'a js_result \<Rightarrow> 'b js_result" where
  "map_result f r = (case r of Null \<Rightarrow> Null | Undefined \<Rightarrow> Undefined | Found x \<Rightarrow> Found (f x))"

section \<open>Looking requests up by their composite identifier\<close>

text \<open>
  \<^verbatim>\<open>String.prototype.split\<close> with a one-character separator: the input is cut at every
  occurrence of the separator, and the result always has at least one element.
\<close>

fun split :: "char \<Rightarrow> string \<Rightarrow> string list" where
  "split c [] = [[]]"
| "split c (x # xs) =
     (if x = c then [] # split c xs
      else (case split c xs of [] \<Rightarrow> [[x]] | y # ys \<Rightarrow> (x # y) # ys))"

text \<open>
  The array destructuring \<^verbatim>\<open>const [type, uuid] = ...\<close> reads elements 0 and 1; an
  element that is not there is \<^verbatim>\<open>undefined\<close> (\<open>None\<close>).
\<close>

definition element :: "'a list \<Rightarrow> nat \<Rightarrow> 'a option" where
  "element xs i = (if i < length xs then Some (xs ! i) else None)"

text \<open>\<^verbatim>\<open>!s\<close> for a string that may be \<^verbatim>\<open>undefined\<close>.\<close>

definition falsy :: "string option \<Rightarrow> bool" where
  "falsy s = (case s of None \<Rightarrow> True | Some v \<Rightarrow> v = [])"

definition findVerifyRequestByIdentifier :: "'d state \<Rightarrow> string \<Rightarrow> 'd Request js_result" where
  "findVerifyRequestByIdentifier st u =
     map_result VerifyRequest
       (findOne (\<lambda>r. CredentialVerifyRequest.uuid r = u) (verifyRequestsRepository st))"

definition findIssueRequestByIdentifier :: "'d state \<Rightarrow> string \<Rightarrow> 'd Request js_result" where
  "findIssueRequestByIdentifier st u =
     map_result IssueRequest
       (findOne (\<lambda>r. CredentialVerifyRequest.uuid r = u) (issueRequestsRepository st))"

definition findVerifyRequestByRequestId :: "'d state \<Rightarrow> string \<Rightarrow> 'd Request js_result" where
  "findVerifyRequestByRequestId st rid =
     (let parts = split CHR '':'' rid; ty = element parts 0; uu = element parts 1
      in if ty \<noteq> Some CredentialVerifyRequest_requestType \<or> falsy uu then Null
         else (case uu of None \<Rightarrow> Null | Some u \<Rightarrow> findVerifyRequestByIdentifier st u))"

definition findIssueRequestByRequestId :: "'d state \<Rightarrow> string \<Rightarrow> 'd Request js_result" where
  "findIssueRequestByRequestId st rid =
     (let parts = split CHR '':'' rid; ty = element parts 0; uu = element parts 1
      in if ty \<noteq> Some CredentialIssueRequest_requestType \<or> falsy uu then Null
         else (case uu of None \<Rightarrow> Null | Some u \<Rightarrow> findIssueRequestByIdentifier st u))"

definition findRequestByRequestId :: "'d state \<Rightarrow> string \<Rightarrow> 'd Request js_result" where
  "findRequestByRequestId st rid =
     (let parts = split CHR '':'' rid; ty = element parts 0; uu = element parts 1
      in if falsy ty \<or> falsy uu then Null
         else (case uu of None \<Rightarrow> Null | Some u \<Rightarrow>
           if ty = Some CredentialVerifyRequest_requestType
             then findVerifyRequestByIdentifier st u
           else if ty = Some CredentialIssueRequest_requestType
             then findIssueRequestByIdentifier st u
           else Null))"

text \<open>The two segments of an identifier, written without \<open>split\<close>.\<close>

definition tag_segment :: "string \<Rightarrow> string" where
  "tag_segment rid = takeWhile (\<lambda>x. x \<noteq> CHR '':'') rid"

definition uuid_segment :: "string \<Rightarrow> string" where
  "uuid_segment rid =
     takeWhile (\<lambda>x. x \<noteq> CHR '':'') (drop 1 (dropWhile (\<lambda>x. x \<noteq> CHR '':'') rid))"

definition after_first_delimiter :: "string \<Rightarrow> string" where
  "after_first_delimiter rid = drop 1 (dropWhile (\<lambda>x. x \<noteq> CHR '':'') rid)"

section \<open>The token library\<close>

text \<open>
  Modelled from the spec: \<^verbatim>\<open>sign\<close>, \<^verbatim>\<open>decode\<close> and \<^verbatim>\<open>verify\<close> belong to the
  \<^verbatim>\<open>jsonwebtoken\<close> package, which is not among the sources. The spec's Token Codec gives
  their contract: \<^verbatim>\<open>decode\<close> parses a token without checking its signature and yields
  nothing (\<^verbatim>\<open>null\<close>) for a string that is not a token; \<^verbatim>\<open>verify\<close> checks the signature
  against the given secret and rejects a token whose age has reached \<^verbatim>\<open>maxAge\<close>, and is
  then the decoded payload. The age is read from the \<open>iat\<close> claim, which \<^verbatim>\<open>verify\<close> requires
  when \<^verbatim>\<open>maxAge\<close> is given; the package compares \<^verbatim>\<open>clockTimestamp >= iat + maxAge\<close>, so a
  token exactly \<^verbatim>\<open>maxAge\<close> seconds old is expired already. The clock (whole seconds) is an
  argument.
\<close>

definition sign :: "'p payload \<Rightarrow> string \<Rightarrow> 'p jwt" where
  "sign p secret = Jws p (HMAC secret p)"

definition decode :: "'p jwt \<Rightarrow> 'p payload option" where
  "decode token = (case token of NotAJwt \<Rightarrow> None | Jws p sg \<Rightarrow> Some p)"

definition verify ::
  "'m JwtClaims_scheme jwt \<Rightarrow> string \<Rightarrow> int \<Rightarrow> int \<Rightarrow> error + 'm JwtClaims_scheme payload" where
  "verify token secret maxAge clockTimestamp =
     (case token of
        NotAJwt \<Rightarrow> Inl JsonWebTokenError
      | Jws p sg \<Rightarrow>
          if sg \<noteq> HMAC secret p then Inl JsonWebTokenError
          else (case p of
                  PayloadString str \<Rightarrow> Inl JsonWebTokenError
                | PayloadObject claims \<Rightarrow>
                    (case iat claims of
                       None \<Rightarrow> Inl JsonWebTokenError
                     | Some issued \<Rightarrow>
                         if clockTimestamp \<ge> issued + maxAge then Inl TokenExpiredError
                         else Inr p)))"

section \<open>Accepting request tokens\<close>

text \<open>\<^verbatim>\<open>const JWT_MAX_AGE = '300s'\<close>: a time span of 300 seconds.\<close>

definition JWT_MAX_AGE :: int where
  "JWT_MAX_AGE = 300"

text \<open>
  The body of the \<^verbatim>\<open>try\<close> block of \<^verbatim>\<open>decodeAndVerifyJwt\<close>; \<open>Inl\<close> is the exception that
  reaches the \<^verbatim>\<open>catch\<close>. \<^verbatim>\<open>!decoded.iss\<close> holds for an absent and for an empty issuer.
\<close>

definition decodeAndVerifyJwt_try ::
  "'d state \<Rightarrow> int \<Rightarrow> 'm JwtClaims_scheme jwt \<Rightarrow> error + ('m JwtClaims_scheme \<times> Organization)" where
  "decodeAndVerifyJwt_try st clock token =
     (case decode token of
        None \<Rightarrow> Inl CouldNotDecodeIssuer
      | Some (PayloadString str) \<Rightarrow> Inl CouldNotDecodeIssuer
      | Some (PayloadObject decoded) \<Rightarrow>
          if falsy (iss decoded) then Inl CouldNotDecodeIssuer
          else (case findOneOrFail (\<lambda>org. Some (Organization.uuid org) = iss decoded)
                       (organizationsRepository st) of
                  Inl e \<Rightarrow> Inl e
                | Inr requestor' \<Rightarrow>
                    (case verify token (sharedSecret requestor') JWT_MAX_AGE clock of
                       Inl e \<Rightarrow> Inl e
                     | Inr (PayloadString str) \<Rightarrow> Inl StringReturned
                     | Inr (PayloadObject request) \<Rightarrow> Inr (request, requestor'))))"

text \<open>
  The \<^verbatim>\<open>catch\<close> block logs whatever was thrown and throws \<open>InvalidRequestJWT\<close> in its
  place. The log keeps the cause, not the formatted message.
\<close>

definition decodeAndVerifyJwt ::
  "'d state \<Rightarrow> int \<Rightarrow> 'm JwtClaims_scheme jwt
     \<Rightarrow> (error + ('m JwtClaims_scheme \<times> Organization)) \<times> 'd state" where
  "decodeAndVerifyJwt st clock token =
     (case decodeAndVerifyJwt_try st clock token of
        Inl e \<Rightarrow> (Inl InvalidRequestJWT, st\<lparr>logger := logger st @ [e]\<rparr>)
      | Inr res \<Rightarrow> (Inr res, st))"

text \<open>
  \<^verbatim>\<open>Repository.save\<close> of a new entity inserts a row; the store generates the row's
  \<open>uuid\<close>, which is the argument \<open>generated\<close> here.
\<close>

definition decodeVerifyRequestToken ::
  "'d state \<Rightarrow> int \<Rightarrow> string \<Rightarrow> 'm CredentialVerifyRequestData_scheme jwt
     \<Rightarrow> (error + CredentialVerifyRequest) \<times> 'd state" where
  "decodeVerifyRequestToken st clock generated token =
     (case decodeAndVerifyJwt st clock token of
        (Inl e, st1) \<Rightarrow> (Inl e, st1)
      | (Inr (request, requestor'), st1) \<Rightarrow>
          (case findOneOrFail
                  (\<lambda>t. organization t = requestor'
                        \<and> CredentialType.type t = CredentialVerifyRequestData.type request)
                  (typesRepository st1) of
             Inl e \<Rightarrow> (Inl e, st1)
           | Inr ty \<Rightarrow>
               (let verifyRequest =
                      \<lparr>uuid = generated, requestor = requestor', type = ty,
                       callbackUrl = CredentialVerifyRequestData.callbackUrl request\<rparr>
                in (Inr verifyRequest,
                    st1\<lparr>verifyRequestsRepository :=
                          verifyRequestsRepository st1 @ [verifyRequest]\<rparr>))))"

definition decodeIssueRequestToken ::
  "'d state \<Rightarrow> int \<Rightarrow> string \<Rightarrow> 'd CredentialIssueRequestData jwt
     \<Rightarrow> (error + 'd CredentialIssueRequest) \<times> 'd state" where
  "decodeIssueRequestToken st clock generated token =
     (case decodeAndVerifyJwt st clock token of
        (Inl e, st1) \<Rightarrow> (Inl e, st1)
      | (Inr (request, requestor'), st1) \<Rightarrow>
          (case findOneOrFail
                  (\<lambda>t. organization t = requestor'
                        \<and> CredentialType.type t = CredentialVerifyRequestData.type request)
                  (typesRepository st1) of
             Inl e \<Rightarrow> (Inl e, st1)
           | Inr ty \<Rightarrow>
               (let issueRequest =
                      \<lparr>uuid = generated, requestor = requestor', type = ty,
                       callbackUrl = CredentialVerifyRequestData.callbackUrl request,
                       data = CredentialIssueRequestData.data request\<rparr>
                in (Inr issueRequest,
                    st1\<lparr>issueRequestsRepository :=
                          issueRequestsRepository st1 @ [issueRequest]\<rparr>))))"

text \<open>
  A call of one of the two operations: the clock reading at the call, the uuid the store
  generates for the row, and the token. \<open>accept_all\<close> makes the calls one after the other,
  each on the state the one before has left.
\<close>

datatype ('m, 'd) accept_call =
    AcceptVerify int string "'m CredentialVerifyRequestData_scheme jwt"
  | AcceptIssue int string "'d CredentialIssueRequestData jwt"

fun generated_uuid :: "('m, 'd) accept_call \<Rightarrow> string" where
  "generated_uuid (AcceptVerify clock generated token) = generated"
| "generated_uuid (AcceptIssue clock generated token) = generated"

fun accept_all :: "'d state \<Rightarrow> ('m, 'd) accept_call list \<Rightarrow> 'd state" where
  "accept_all st [] = st"
| "accept_all st (AcceptVerify clock generated token # calls) =
     accept_all (snd (decodeVerifyRequestToken st clock generated token)) calls"
| "accept_all st (AcceptIssue clock generated token # calls) =
     accept_all (snd (decodeIssueRequestToken st clock generated token)) calls"

section \<open>The disclosure endpoint\<close>

text \<open>
  Modelled from the spec: the enum \<^verbatim>\<open>ResponseStatus\<close> is in a missing file. The
  controller uses its member \<^verbatim>\<open>success\<close>; the spec speaks of a failure status beside it.
\<close>

datatype ResponseStatus = success | failure

text \<open>
  Modelled from the spec: the interface \<^verbatim>\<open>ConnectorService\<close> is in a missing file. The
  disclosure endpoint uses a connector's name and its disclosure-handling step, which
  takes the request and the raw body and resolves to result data or rejects.
\<close>

record ('b, 'e, 'r) ConnectorService =
  name :: string
  handleVerifyCredentialDisclosure :: "CredentialVerifyRequest \<Rightarrow> 'b \<Rightarrow> 'e + 'r"

text \<open>
  Modelled from the spec: \<^verbatim>\<open>RequestsGateway.sendRedirectResponse(requestId, status, url)\<close>
  is in a missing file. It is the spec's \<^verbatim>\<open>notify\<close>, which delivers one message to the
  session associated with the \<^verbatim>\<open>requestId\<close>; the gateway is the list of the messages
  handed to it, oldest first.
\<close>

type_synonym gateway = "(string \<times> ResponseStatus \<times> string) list"

definition sendRedirectResponse :: "gateway \<Rightarrow> string \<Rightarrow> ResponseStatus \<Rightarrow> string \<Rightarrow> gateway" where
  "sendRedirectResponse gw rid status url = gw @ [(rid, status, url)]"

text \<open>
  \<^verbatim>\<open>handleCredentialVerifyDisclosure\<close> of the controller. The service method
  \<^verbatim>\<open>encodeVerifyRequestResponse\<close> is not among the sources, so it is the argument
  \<open>encodeVerifyRequestResponse\<close>. A rejection of the awaited connector step leaves the
  handler at once.
\<close>

definition handleCredentialVerifyDisclosure ::
  "(CredentialVerifyRequest \<Rightarrow> ResponseStatus \<Rightarrow> string \<Rightarrow> 'r \<Rightarrow> string) \<Rightarrow> gateway
     \<Rightarrow> ('b, 'e, 'r) ConnectorService \<Rightarrow> CredentialVerifyRequest \<Rightarrow> 'b
     \<Rightarrow> ('e + unit) \<times> gateway" where
  "handleCredentialVerifyDisclosure encodeVerifyRequestResponse gw connectorService verifyRequest body =
     (case handleVerifyCredentialDisclosure connectorService verifyRequest body of
        Inl e \<Rightarrow> (Inl e, gw)
      | Inr result \<Rightarrow>
          (let responseToken =
                 encodeVerifyRequestResponse verifyRequest success (name connectorService) result
           in (Inr (),
               sendRedirectResponse gw (requestId verifyRequest) success
                 (callbackUrl verifyRequest @ responseToken))))"

section \<open>The conditions the claims speak of\<close>

text \<open>
  The Trust Store knows an organization when looking its identifier up yields that
  organization.
\<close>

definition known_organization :: "'d state \<Rightarrow> Organization \<Rightarrow> bool" where
  "known_organization st org =
     (findOneOrFail (\<lambda>x. Organization.uuid x = Organization.uuid org)
        (organizationsRepository st) = Inr org)"

text \<open>
  A payload names a known organization as its issuer. An organization's identifier is a
  UUID, which is never the empty string.
\<close>

definition names_issuer :: "'d state \<Rightarrow> Organization \<Rightarrow> 'm JwtClaims_scheme \<Rightarrow> bool" where
  "names_issuer st org P =
     (known_organization st org \<and> Organization.uuid org \<noteq> []
      \<and> iss P = Some (Organization.uuid org))"

text \<open>A payload is fresh at a clock reading: it carries its time of issue, less than
  \<open>JWT_MAX_AGE\<close> seconds back.\<close>

definition fresh :: "int \<Rightarrow> 'm JwtClaims_scheme \<Rightarrow> bool" where
  "fresh clock P =
     (case iat P of None \<Rightarrow> False | Some issued \<Rightarrow> clock < issued + JWT_MAX_AGE)"

text \<open>The types repository resolves an organization and a type name to a credential type.\<close>

definition owns_type :: "'d state \<Rightarrow> Organization \<Rightarrow> string \<Rightarrow> CredentialType \<Rightarrow> bool" where
  "owns_type st org nm ty =
     (findOneOrFail (\<lambda>t. organization t = org \<and> CredentialType.type t = nm)
        (typesRepository st) = Inr ty)"

section \<open>Example data\<close>

text \<open>The organizations, types, payloads, stores and calls of the examples.\<close>

definition org1 :: Organization where
  "org1 = \<lparr>Organization.uuid = ''org1'', sharedSecret = ''s1''\<rparr>"

definition org2 :: Organization where
  "org2 = \<lparr>Organization.uuid = ''org2'', sharedSecret = ''s2''\<rparr>"

definition org3 :: Organization where
  "org3 = \<lparr>Organization.uuid = ''org3'', sharedSecret = ''s3''\<rparr>"

definition passport :: CredentialType where
  "passport = \<lparr>organization = org1, CredentialType.type = ''passport'', jolocomType = None\<rparr>"

definition diploma :: CredentialType where
  "diploma = \<lparr>organization = org3, CredentialType.type = ''diploma'', jolocomType = None\<rparr>"

definition store0 :: "string state" where
  "store0 = \<lparr>organizationsRepository = [org1, org2, org3], issueRequestsRepository = [],
     verifyRequestsRepository = [], typesRepository = [passport, diploma], logger = []\<rparr>"

definition payload1 :: CredentialVerifyRequestData where
  "payload1 = \<lparr>iss = Some ''org1'', iat = Some 1000,
     CredentialVerifyRequestData.type = ''passport'',
     CredentialVerifyRequestData.callbackUrl = ''https://example.com/cb''\<rparr>"

definition payload2 :: "string CredentialIssueRequestData" where
  "payload2 = \<lparr>iss = Some ''org1'', iat = Some 1000,
     CredentialVerifyRequestData.type = ''passport'',
     CredentialVerifyRequestData.callbackUrl = ''https://example.com/cb'',
     CredentialIssueRequestData.data = ''Alice''\<rparr>"

definition payload_no_issuer :: CredentialVerifyRequestData where
  "payload_no_issuer = \<lparr>iss = None, iat = Some 1000,
     CredentialVerifyRequestData.type = ''passport'',
     CredentialVerifyRequestData.callbackUrl = ''https://example.com/cb''\<rparr>"

definition payload_unknown_issuer :: CredentialVerifyRequestData where
  "payload_unknown_issuer = \<lparr>iss = Some ''org9'', iat = Some 1000,
     CredentialVerifyRequestData.type = ''passport'',
     CredentialVerifyRequestData.callbackUrl = ''https://example.com/cb''\<rparr>"

definition payload_unknown_type :: CredentialVerifyRequestData where
  "payload_unknown_type = \<lparr>iss = Some ''org1'', iat = Some 1000,
     CredentialVerifyRequestData.type = ''licence'',
     CredentialVerifyRequestData.callbackUrl = ''https://example.com/cb''\<rparr>"

definition request_u1 :: CredentialVerifyRequest where
  "request_u1 = \<lparr>uuid = ''u1'', requestor = org1, type = passport,
     callbackUrl = ''https://example.com/cb''\<rparr>"

definition issue_request_u2 :: "string CredentialIssueRequest" where
  "issue_request_u2 = \<lparr>uuid = ''u2'', requestor = org1, type = passport,
     callbackUrl = ''https://example.com/cb'', data = ''Alice''\<rparr>"

definition store1 :: "string state" where
  "store1 = \<lparr>organizationsRepository = [org1, org2, org3],
     issueRequestsRepository = [issue_request_u2],
     verifyRequestsRepository = [request_u1], typesRepository = [passport, diploma],
     logger = []\<rparr>"

definition request_u3 :: CredentialVerifyRequest where
  "request_u3 = \<lparr>uuid = ''u3'', requestor = org1, type = passport,
     callbackUrl = ''https://example.com/cb''\<rparr>"

definition request_u4 :: CredentialVerifyRequest where
  "request_u4 = \<lparr>uuid = ''u4'', requestor = org1, type = passport,
     callbackUrl = ''https://example.com/cb''\<rparr>"

definition issue_request_u5 :: "string CredentialIssueRequest" where
  "issue_request_u5 = \<lparr>uuid = ''u5'', requestor = org1, type = passport,
     callbackUrl = ''https://example.com/cb'', data = ''Alice''\<rparr>"

definition later_calls :: "(unit, string) accept_call list" where
  "later_calls =
     [AcceptVerify 1000 ''u4'' (sign (PayloadObject payload1) ''s1''),
      AcceptIssue 1000 ''u5'' (sign (PayloadObject payload2) ''s1'')]"

definition failing_connector :: "(string, string, string) ConnectorService" where
  "failing_connector =
     \<lparr>name = ''demo'', handleVerifyCredentialDisclosure = (\<lambda>r b. Inl ''rejected'')\<rparr>"

definition example_encode ::
  "CredentialVerifyRequest \<Rightarrow> ResponseStatus \<Rightarrow> string \<Rightarrow> string \<Rightarrow> string" where
  "example_encode r status connectorName result = connectorName @ ''.'' @ result"

lemmas example_defs =
  org1_def org2_def org3_def passport_def diploma_def store0_def store1_def
  payload1_def payload2_def payload_no_issuer_def payload_unknown_issuer_def
  payload_unknown_type_def request_u1_def issue_request_u2_def request_u3_def
  request_u4_def issue_request_u5_def later_calls_def

lemmas service_defs =
  decodeVerifyRequestToken_def decodeIssueRequestToken_def decodeAndVerifyJwt_def
  decodeAndVerifyJwt_try_def decode_def sign_def verify_def falsy_def JWT_MAX_AGE_def
  findOneOrFail_def names_issuer_def known_organization_def fresh_def owns_type_def Let_def

lemmas lookup_defs =
  findRequestByRequestId_def findVerifyRequestByRequestId_def findIssueRequestByRequestId_def
  findVerifyRequestByIdentifier_def findIssueRequestByIdentifier_def findOne_def
  map_result_def element_def falsy_def CredentialVerifyRequest_requestType_def
  CredentialIssueRequest_requestType_def tag_segment_def uuid_segment_def
  after_first_delimiter_def Let_def

section \<open>Facts about splitting\<close>

lemma split_not_Nil: "split c s \<noteq> []"
  by (induction s) (auto split: list.splits)

lemma hd_split: "hd (split c s) = takeWhile (\<lambda>x. x \<noteq> c) s"
proof (induction s)
  case Nil
  show ?case by simp
next
  case (Cons x xs)
  then show ?case
    using split_not_Nil [of c xs] by (cases "split c xs") auto
qed

lemma tl_split:
  "tl (split c s) = (case dropWhile (\<lambda>x. x \<noteq> c) s of [] \<Rightarrow> [] | y # ys \<Rightarrow> split c ys)"
proof (induction s)
  case Nil
  show ?case by simp
next
  case (Cons x xs)
  then show ?case
    using split_not_Nil [of c xs] by (cases "split c xs") auto
qed

lemma element_0_split: "element (split c s) 0 = Some (takeWhile (\<lambda>x. x \<noteq> c) s)"
proof -
  obtain y ys where "split c s = y # ys"
    using split_not_Nil [of c s] by (cases "split c s") auto
  then show ?thesis
    using hd_split [of c s] by (simp add: element_def)
qed

lemma falsy_element_1_split:
  "falsy (element (split c s) 1) \<longleftrightarrow>
     takeWhile (\<lambda>x. x \<noteq> c) (drop 1 (dropWhile (\<lambda>x. x \<noteq> c) s)) = []"
proof -
  obtain y ys where s: "split c s = y # ys"
    using split_not_Nil [of c s] by (cases "split c s") auto
  show ?thesis
  proof (cases "dropWhile (\<lambda>x. x \<noteq> c) s")
    case Nil
    with s tl_split [of c s] have "ys = []" by simp
    moreover have "takeWhile (\<lambda>x. x \<noteq> c) (drop 1 (dropWhile (\<lambda>x. x \<noteq> c) s)) = []"
      by (simp only: Nil drop_Nil takeWhile.simps)
    ultimately show ?thesis using s by (simp add: element_def falsy_def)
  next
    case (Cons z zs)
    with s tl_split [of c s] have ys: "ys = split c zs" by simp
    obtain w ws where w: "split c zs = w # ws"
      using split_not_Nil [of c zs] by (cases "split c zs") auto
    with hd_split [of c zs] have "w = takeWhile (\<lambda>x. x \<noteq> c) zs" by simp
    with s ys w Cons show ?thesis by (simp add: element_def falsy_def)
  qed
qed

lemma element_1_split:
  "\<not> falsy (element (split c s) 1) \<Longrightarrow>
     element (split c s) 1 = Some (takeWhile (\<lambda>x. x \<noteq> c) (drop 1 (dropWhile (\<lambda>x. x \<noteq> c) s)))"
proof -
  assume nf: "\<not> falsy (element (split c s) 1)"
  obtain y ys where s: "split c s = y # ys"
    using split_not_Nil [of c s] by (cases "split c s") auto
  show ?thesis
  proof (cases "dropWhile (\<lambda>x. x \<noteq> c) s")
    case Nil
    with s tl_split [of c s] have "ys = []" by simp
    with s nf show ?thesis by (simp add: element_def falsy_def)
  next
    case (Cons z zs)
    with s tl_split [of c s] have ys: "ys = split c zs" by simp
    obtain w ws where w: "split c zs = w # ws"
      using split_not_Nil [of c zs] by (cases "split c zs") auto
    with hd_split [of c zs] have "w = takeWhile (\<lambda>x. x \<noteq> c) zs" by simp
    with s ys w Cons show ?thesis by (simp add: element_def)
  qed
qed


lemma findRequestByRequestId_parse:
  "findRequestByRequestId st rid =
     (if tag_segment rid = [] \<or> uuid_segment rid = [] then Null
      else if tag_segment rid = CredentialVerifyRequest_requestType
        then findVerifyRequestByIdentifier st (uuid_segment rid)
      else if tag_segment rid = CredentialIssueRequest_requestType
        then findIssueRequestByIdentifier st (uuid_segment rid)
      else Null)"
proof (cases "falsy (element (split CHR '':'' rid) 1)")
  case True
  then have "uuid_segment rid = []"
    by (simp only: uuid_segment_def falsy_element_1_split [symmetric])
  with True show ?thesis
    by (simp add: findRequestByRequestId_def Let_def)
next
  case False
  then have u: "element (split CHR '':'' rid) 1 = Some (uuid_segment rid)"
    unfolding uuid_segment_def by (rule element_1_split)
  from False have "uuid_segment rid \<noteq> []"
    by (simp only: uuid_segment_def falsy_element_1_split [symmetric] not_False_eq_True)
  with u show ?thesis
    by (simp add: findRequestByRequestId_def Let_def element_0_split tag_segment_def falsy_def)
qed

lemma tag_agree_verify:
  "tag_segment rid = CredentialVerifyRequest_requestType \<Longrightarrow>
     findRequestByRequestId st rid = findVerifyRequestByRequestId st rid"
  by (auto simp: findRequestByRequestId_def findVerifyRequestByRequestId_def Let_def
      tag_segment_def element_0_split falsy_def CredentialVerifyRequest_requestType_def
      CredentialIssueRequest_requestType_def split: option.splits)

lemma tag_agree_issue:
  "tag_segment rid = CredentialIssueRequest_requestType \<Longrightarrow>
     findRequestByRequestId st rid = findIssueRequestByRequestId st rid"
  by (auto simp: findRequestByRequestId_def findIssueRequestByRequestId_def Let_def
      tag_segment_def element_0_split falsy_def CredentialVerifyRequest_requestType_def
      CredentialIssueRequest_requestType_def split: option.splits)

lemma segments_of_tagged:
  "CHR '':'' \<notin> set t \<Longrightarrow> CHR '':'' \<notin> set u \<Longrightarrow>
     tag_segment (t @ '':'' @ u) = t \<and> uuid_segment (t @ '':'' @ u) = u"
  by (auto simp add: tag_segment_def uuid_segment_def takeWhile_append dropWhile_append
      takeWhile_eq_all_conv)

section \<open>Facts about the repositories\<close>

lemma findOneOrFail_holds: "findOneOrFail P xs = Inr x \<Longrightarrow> P x \<and> x \<in> set xs"
  by (auto simp: findOneOrFail_def find_Some_iff split: option.splits)


lemma find_append_new:
  "\<forall>x \<in> set xs. \<not> P x \<Longrightarrow> P r \<Longrightarrow> find P (xs @ [r]) = Some r"
  by (induction xs) auto

lemma find_absent: "\<forall>x \<in> set xs. \<not> P x \<Longrightarrow> find P xs = None"
  by (simp add: find_None_iff)

section \<open>Facts about token verification\<close>

lemma verify_sign:
  "verify (sign (PayloadObject P) k) k' m clock =
     (if k \<noteq> k' then Inl JsonWebTokenError
      else (case iat P of None \<Rightarrow> Inl JsonWebTokenError
            | Some issued \<Rightarrow> if clock \<ge> issued + m then Inl TokenExpiredError
                             else Inr (PayloadObject P)))"
  by (simp add: verify_def sign_def)

lemma try_sign:
  assumes "names_issuer st org P"
  shows "decodeAndVerifyJwt_try st clock (sign (PayloadObject P) k) =
     (if k \<noteq> sharedSecret org then Inl JsonWebTokenError
      else (case iat P of None \<Rightarrow> Inl JsonWebTokenError
            | Some issued \<Rightarrow> if clock \<ge> issued + JWT_MAX_AGE then Inl TokenExpiredError
                             else Inr (P, org)))"
proof -
  from assms
  have f: "findOneOrFail (\<lambda>x. Some (Organization.uuid x) = iss P)
             (organizationsRepository st) = Inr org"
    and nf: "\<not> falsy (iss P)"
    by (simp_all add: names_issuer_def known_organization_def falsy_def)
  have d: "decode (sign (PayloadObject P) k) = Some (PayloadObject P)"
    by (simp add: decode_def sign_def)
  show ?thesis
    unfolding decodeAndVerifyJwt_try_def d
    by (simp add: f nf verify_sign split: option.splits)
qed

lemma try_accept:
  assumes "names_issuer st org P" "fresh clock P"
  shows "decodeAndVerifyJwt_try st clock (sign (PayloadObject P) (sharedSecret org)) =
    Inr (P, org)"
  using assms(2) by (simp add: try_sign [OF assms(1)] fresh_def split: option.splits)

lemma jwt_accept:
  assumes "names_issuer st org P" "fresh clock P"
  shows "decodeAndVerifyJwt st clock (sign (PayloadObject P) (sharedSecret org)) =
    (Inr (P, org), st)"
  by (simp add: decodeAndVerifyJwt_def try_accept [OF assms])

lemma jwt_failure_generic:
  "decodeAndVerifyJwt st clock token = (Inl e, st') \<Longrightarrow>
     e = InvalidRequestJWT \<and> (\<exists>cause. st' = st\<lparr>logger := logger st @ [cause]\<rparr>)"
  by (auto simp: decodeAndVerifyJwt_def split: sum.splits)

lemma jwt_success_state: "decodeAndVerifyJwt st clock token = (Inr res, st') \<Longrightarrow> st' = st"
  by (auto simp: decodeAndVerifyJwt_def split: sum.splits)

lemma verify_created:
  "decodeVerifyRequestToken st clock u token = (Inr r, st') \<Longrightarrow>
     uuid r = u \<and> st' = st\<lparr>verifyRequestsRepository := verifyRequestsRepository st @ [r]\<rparr>"
  by (auto simp: decodeVerifyRequestToken_def Let_def
      split: prod.splits sum.splits dest: jwt_success_state)

section \<open>Facts about sequences of calls\<close>

lemma find_append_first: "find P xs = Some r \<Longrightarrow> find P (xs @ ys) = Some r"
  by (induction xs) (auto split: if_splits)

lemma verify_step_rows:
  "\<exists>rows. verifyRequestsRepository (snd (decodeVerifyRequestToken st clock g token)) =
            verifyRequestsRepository st @ rows \<and> (\<forall>x \<in> set rows. uuid x = g)"
proof (cases "fst (decodeVerifyRequestToken st clock g token)")
  case (Inl e)
  then have "verifyRequestsRepository (snd (decodeVerifyRequestToken st clock g token)) =
      verifyRequestsRepository st"
    by (auto simp: decodeVerifyRequestToken_def Let_def
        split: prod.splits sum.splits dest: jwt_failure_generic jwt_success_state)
  then show ?thesis by simp
next
  case (Inr r)
  then have "decodeVerifyRequestToken st clock g token =
      (Inr r, snd (decodeVerifyRequestToken st clock g token))"
    by (simp add: prod_eq_iff)
  from verify_created [OF this]
  have "uuid r = g"
    and "verifyRequestsRepository (snd (decodeVerifyRequestToken st clock g token)) =
      verifyRequestsRepository st @ [r]"
    by simp_all
  then show ?thesis by simp
qed

lemma issue_step_rows:
  "verifyRequestsRepository (snd (decodeIssueRequestToken st clock g token)) =
     verifyRequestsRepository st"
  by (auto simp: decodeIssueRequestToken_def Let_def
      split: prod.splits sum.splits dest: jwt_failure_generic jwt_success_state)

lemma accept_all_rows:
  "\<exists>rows. verifyRequestsRepository (accept_all st calls) = verifyRequestsRepository st @ rows
     \<and> (\<forall>x \<in> set rows. uuid x \<in> generated_uuid ` set calls)"
proof (induction st calls rule: accept_all.induct)
  case (1 st)
  show ?case by simp
next
  case (2 st clock g token calls)
  obtain rows where a: "verifyRequestsRepository (snd (decodeVerifyRequestToken st clock g token)) =
      verifyRequestsRepository st @ rows" and b: "\<forall>x \<in> set rows. uuid x = g"
    using verify_step_rows by blast
  obtain rows' where c: "verifyRequestsRepository
        (accept_all (snd (decodeVerifyRequestToken st clock g token)) calls) =
      verifyRequestsRepository (snd (decodeVerifyRequestToken st clock g token)) @ rows'"
    and d: "\<forall>x \<in> set rows'. uuid x \<in> generated_uuid ` set calls"
    using "2.IH" by blast
  have "verifyRequestsRepository (accept_all st (AcceptVerify clock g token # calls)) =
      verifyRequestsRepository st @ (rows @ rows')"
    using a c by simp
  moreover have "\<forall>x \<in> set (rows @ rows').
      uuid x \<in> generated_uuid ` set (AcceptVerify clock g token # calls)"
    using b d by auto
  ultimately show ?case by blast
next
  case (3 st clock g token calls)
  obtain rows' where c: "verifyRequestsRepository
        (accept_all (snd (decodeIssueRequestToken st clock g token)) calls) =
      verifyRequestsRepository (snd (decodeIssueRequestToken st clock g token)) @ rows'"
    and d: "\<forall>x \<in> set rows'. uuid x \<in> generated_uuid ` set calls"
    using "3.IH" by blast
  have "verifyRequestsRepository (accept_all st (AcceptIssue clock g token # calls)) =
      verifyRequestsRepository st @ rows'"
    using c by (simp add: issue_step_rows)
  moreover have "\<forall>x \<in> set rows'.
      uuid x \<in> generated_uuid ` set (AcceptIssue clock g token # calls)"
    using d by auto
  ultimately show ?case by blast
qed

section \<open>Claims\<close>

text \<open>
  Claim C1. A token whose issuer claim names a known organization B and whose signature
  was made with the secret of another organization A, not with B's, is rejected by
  \<open>decodeVerifyRequestToken\<close> and by \<open>decodeIssueRequestToken\<close> with \<open>InvalidRequestJWT\<close>; the
  state changes in the log only, so no request record is created.
\<close>

theorem cross_issuer_rejected:
  "(names_issuer st B P \<and> sharedSecret A \<noteq> sharedSecret B \<longrightarrow>
      decodeVerifyRequestToken st clock generated (sign (PayloadObject P) (sharedSecret A)) =
        (Inl InvalidRequestJWT, st\<lparr>logger := logger st @ [JsonWebTokenError]\<rparr>)) \<and>
   (names_issuer st B Q \<and> sharedSecret A \<noteq> sharedSecret B \<longrightarrow>
      decodeIssueRequestToken st clock generated (sign (PayloadObject Q) (sharedSecret A)) =
        (Inl InvalidRequestJWT, st\<lparr>logger := logger st @ [JsonWebTokenError]\<rparr>))"
  by (auto simp add: decodeVerifyRequestToken_def decodeIssueRequestToken_def
      decodeAndVerifyJwt_def try_sign)

theorem cross_issuer_rejected_witness:
  "names_issuer store0 org1 payload1 \<and> names_issuer store0 org1 payload2 \<and>
   sharedSecret org2 \<noteq> sharedSecret org1 \<and>
   decodeVerifyRequestToken store0 1000 ''u1'' (sign (PayloadObject payload1) (sharedSecret org2)) =
     (Inl InvalidRequestJWT, store0\<lparr>logger := logger store0 @ [JsonWebTokenError]\<rparr>) \<and>
   decodeIssueRequestToken store0 1000 ''u1'' (sign (PayloadObject payload2) (sharedSecret org2)) =
     (Inl InvalidRequestJWT, store0\<lparr>logger := logger store0 @ [JsonWebTokenError]\<rparr>)"
proof -
  have a: "names_issuer store0 org1 payload1"
    by (simp add: names_issuer_def known_organization_def findOneOrFail_def example_defs)
  have b: "names_issuer store0 org1 payload2"
    by (simp add: names_issuer_def known_organization_def findOneOrFail_def example_defs)
  have c: "sharedSecret org2 \<noteq> sharedSecret org1"
    by (simp add: example_defs)
  show ?thesis
    using cross_issuer_rejected [of store0 org1 payload1 org2 1000 "''u1''" payload2] a b c
    by simp
qed

text \<open>
  Claim C2. For an organization known to the Trust Store and a payload signed with its
  secret that names it as issuer, is fresh and declares a credential type the
  organization owns, \<open>decodeVerifyRequestToken\<close> returns a request with the generated
  uuid whose requestor is the organization, whose callbackUrl is the payload's and whose
  type is the resolved credential type, and that request is appended to the verify
  store; \<open>decodeIssueRequestToken\<close> does the same on the issue store and copies the
  payload's data.
\<close>

theorem accept_roundtrip:
  "(names_issuer st org P \<and> fresh clock P
      \<and> owns_type st org (CredentialVerifyRequestData.type P) ty \<longrightarrow>
      decodeVerifyRequestToken st clock generated (sign (PayloadObject P) (sharedSecret org)) =
        (Inr \<lparr>uuid = generated, requestor = org, type = ty,
              callbackUrl = CredentialVerifyRequestData.callbackUrl P\<rparr>,
         st\<lparr>verifyRequestsRepository := verifyRequestsRepository st @
              [\<lparr>uuid = generated, requestor = org, type = ty,
                callbackUrl = CredentialVerifyRequestData.callbackUrl P\<rparr>]\<rparr>)) \<and>
   (names_issuer st org Q \<and> fresh clock Q
      \<and> owns_type st org (CredentialVerifyRequestData.type Q) ty \<longrightarrow>
      decodeIssueRequestToken st clock generated (sign (PayloadObject Q) (sharedSecret org)) =
        (Inr \<lparr>uuid = generated, requestor = org, type = ty,
              callbackUrl = CredentialVerifyRequestData.callbackUrl Q,
              data = CredentialIssueRequestData.data Q\<rparr>,
         st\<lparr>issueRequestsRepository := issueRequestsRepository st @
              [\<lparr>uuid = generated, requestor = org, type = ty,
                callbackUrl = CredentialVerifyRequestData.callbackUrl Q,
                data = CredentialIssueRequestData.data Q\<rparr>]\<rparr>))"
  by (simp add: decodeVerifyRequestToken_def decodeIssueRequestToken_def jwt_accept
      owns_type_def Let_def)

theorem accept_roundtrip_witness:
  "names_issuer store0 org1 payload1 \<and> fresh 1299 payload1 \<and>
   owns_type store0 org1 ''passport'' passport \<and>
   names_issuer store0 org1 payload2 \<and> fresh 1299 payload2 \<and>
   decodeVerifyRequestToken store0 1299 ''u1'' (sign (PayloadObject payload1) ''s1'') =
     (Inr request_u1, store0\<lparr>verifyRequestsRepository := [request_u1]\<rparr>) \<and>
   decodeIssueRequestToken store0 1299 ''u2'' (sign (PayloadObject payload2) ''s1'') =
     (Inr issue_request_u2, store0\<lparr>issueRequestsRepository := [issue_request_u2]\<rparr>)"
proof -
  have a: "names_issuer store0 org1 payload1 \<and> fresh 1299 payload1"
    by (simp add: service_defs example_defs)
  have b: "names_issuer store0 org1 payload2 \<and> fresh 1299 payload2"
    by (simp add: service_defs example_defs)
  have c: "owns_type store0 org1 ''passport'' passport"
    by (simp add: service_defs example_defs)
  have t: "CredentialVerifyRequestData.type payload1 = ''passport''
      \<and> CredentialVerifyRequestData.type payload2 = ''passport''
      \<and> sharedSecret org1 = ''s1''"
    by (simp add: example_defs)
  have v: "decodeVerifyRequestToken store0 1299 ''u1'' (sign (PayloadObject payload1) ''s1'') =
     (Inr request_u1, store0\<lparr>verifyRequestsRepository := [request_u1]\<rparr>)"
    using accept_roundtrip [of store0 org1 payload1 1299 passport "''u1''" payload2] a c t
    by (simp add: example_defs)
  have i: "decodeIssueRequestToken store0 1299 ''u2'' (sign (PayloadObject payload2) ''s1'') =
     (Inr issue_request_u2, store0\<lparr>issueRequestsRepository := [issue_request_u2]\<rparr>)"
    using accept_roundtrip [of store0 org1 payload1 1299 passport "''u2''" payload2] b c t
    by (simp add: example_defs)
  from a b c v i show ?thesis by simp
qed

text \<open>
  Claim C3. Whenever \<open>decodeVerifyRequestToken\<close> or \<open>decodeIssueRequestToken\<close> fails, for
  whatever reason, both request stores are as they were before the call.
\<close>

theorem failure_creates_nothing:
  "(decodeVerifyRequestToken st clock generated token = (Inl e, st') \<longrightarrow>
      verifyRequestsRepository st' = verifyRequestsRepository st \<and>
      issueRequestsRepository st' = issueRequestsRepository st) \<and>
   (decodeIssueRequestToken st clock generated token' = (Inl e', st'') \<longrightarrow>
      verifyRequestsRepository st'' = verifyRequestsRepository st \<and>
      issueRequestsRepository st'' = issueRequestsRepository st)"
  by (auto simp: decodeVerifyRequestToken_def decodeIssueRequestToken_def Let_def
      split: prod.splits sum.splits dest: jwt_failure_generic jwt_success_state)

theorem failure_creates_nothing_witness:
  "decodeVerifyRequestToken store1 1000 ''u3'' (sign (PayloadObject payload_unknown_type) ''s1'') =
     (Inl EntityNotFound, store1) \<and>
   decodeIssueRequestToken store1 1300 ''u3'' (sign (PayloadObject payload2) ''s1'') =
     (Inl InvalidRequestJWT, store1\<lparr>logger := [TokenExpiredError]\<rparr>) \<and>
   verifyRequestsRepository store1 = [request_u1] \<and>
   issueRequestsRepository (store1\<lparr>logger := [TokenExpiredError]\<rparr>) = [issue_request_u2]"
proof -
  have v: "decodeVerifyRequestToken store1 1000 ''u3''
      (sign (PayloadObject payload_unknown_type) ''s1'') = (Inl EntityNotFound, store1)"
    by (simp add: service_defs example_defs)
  have i: "decodeIssueRequestToken store1 1300 ''u3'' (sign (PayloadObject payload2) ''s1'') =
     (Inl InvalidRequestJWT, store1\<lparr>logger := [TokenExpiredError]\<rparr>)"
    by (simp add: service_defs example_defs)
  have s: "verifyRequestsRepository store1 = [request_u1]
      \<and> issueRequestsRepository store1 = [issue_request_u2]"
    by (simp add: store1_def)
  show ?thesis
    using
      failure_creates_nothing [where st = store1 and clock = 1000 and generated = "''u3''"
        and token = "sign (PayloadObject payload_unknown_type) ''s1''"
        and e = EntityNotFound and st' = store1]
      failure_creates_nothing [where st = store1 and clock = 1300 and generated = "''u3''"
        and token' = "sign (PayloadObject payload2) ''s1''"
        and e' = InvalidRequestJWT and st'' = "store1\<lparr>logger := [TokenExpiredError]\<rparr>"]
      v i s
    by simp
qed

text \<open>
  Claim C4. Let \<open>decodeVerifyRequestToken\<close> create a request with the generated uuid
  \<open>u\<close>, where \<open>u\<close> is as a generated UUID is: not empty, without a colon, not the uuid of
  an earlier verify request and not generated again for a later call. Then the request's
  \<open>requestId\<close> is \<open>verify:u\<close>, and after any further calls of the two operations
  \<open>findRequestByRequestId\<close> on \<open>verify:u\<close> returns that request, whatever other rows the
  verify store held before and has received since, and \<open>findRequestByRequestId\<close> on
  \<open>issue:u\<close> finds nothing when no issue request has the uuid \<open>u\<close>.
\<close>

theorem created_request_resolves:
  "decodeVerifyRequestToken st clock u token = (Inr r, st') \<and>
   u \<noteq> [] \<and> CHR '':'' \<notin> set u \<and>
   (\<forall>x \<in> set (verifyRequestsRepository st). uuid x \<noteq> u) \<and>
   (\<forall>c \<in> set later. generated_uuid c \<noteq> u) \<longrightarrow>
     requestId r = ''verify:'' @ u \<and>
     findRequestByRequestId (accept_all st' later) (''verify:'' @ u) = Found (VerifyRequest r) \<and>
     ((\<forall>x \<in> set (issueRequestsRepository (accept_all st' later)). uuid x \<noteq> u) \<longrightarrow>
        findRequestByRequestId (accept_all st' later) (''issue:'' @ u) = Undefined)"
proof (intro impI, elim conjE)
  assume created: "decodeVerifyRequestToken st clock u token = (Inr r, st')"
    and ne: "u \<noteq> []" and colon: "CHR '':'' \<notin> set u"
    and new: "\<forall>x \<in> set (verifyRequestsRepository st). uuid x \<noteq> u"
    and unique: "\<forall>c \<in> set later. generated_uuid c \<noteq> u"
  from verify_created [OF created]
  have ur: "uuid r = u"
    and st': "verifyRequestsRepository st' = verifyRequestsRepository st @ [r]"
    by simp_all
  obtain rows where rows: "verifyRequestsRepository (accept_all st' later) =
      verifyRequestsRepository st' @ rows"
    using accept_all_rows by blast
  have v: "tag_segment (''verify:'' @ u) = ''verify'' \<and> uuid_segment (''verify:'' @ u) = u"
    using segments_of_tagged [of "''verify''" u] colon by simp
  have i: "tag_segment (''issue:'' @ u) = ''issue'' \<and> uuid_segment (''issue:'' @ u) = u"
    using segments_of_tagged [of "''issue''" u] colon by simp
  have "find (\<lambda>x. uuid x = u) (verifyRequestsRepository st') = Some r"
    unfolding st' using new ur by (intro find_append_new) auto
  then have fv: "find (\<lambda>x. uuid x = u) (verifyRequestsRepository (accept_all st' later)) = Some r"
    unfolding rows by (rule find_append_first)
  have rid: "requestId r = ''verify:'' @ u"
    using ur by (simp add: requestId_def CredentialVerifyRequest_requestType_def)
  have found: "findRequestByRequestId (accept_all st' later) (''verify:'' @ u) =
      Found (VerifyRequest r)"
    using v ne fv
    by (simp add: findRequestByRequestId_parse CredentialVerifyRequest_requestType_def
        findVerifyRequestByIdentifier_def findOne_def map_result_def)
  have "findRequestByRequestId (accept_all st' later) (''issue:'' @ u) = Undefined"
    if "\<forall>x \<in> set (issueRequestsRepository (accept_all st' later)). uuid x \<noteq> u"
    using i ne
      find_absent [of "issueRequestsRepository (accept_all st' later)" "\<lambda>x. uuid x = u"] that
    by (simp add: findRequestByRequestId_parse CredentialVerifyRequest_requestType_def
        CredentialIssueRequest_requestType_def
        findIssueRequestByIdentifier_def findOne_def map_result_def)
  with rid found
  show "requestId r = ''verify:'' @ u \<and>
     findRequestByRequestId (accept_all st' later) (''verify:'' @ u) = Found (VerifyRequest r) \<and>
     ((\<forall>x \<in> set (issueRequestsRepository (accept_all st' later)). uuid x \<noteq> u) \<longrightarrow>
        findRequestByRequestId (accept_all st' later) (''issue:'' @ u) = Undefined)"
    by blast
qed

theorem created_request_resolves_witness:
  "decodeVerifyRequestToken store1 1000 ''u3'' (sign (PayloadObject payload1) ''s1'') =
     (Inr request_u3, store1\<lparr>verifyRequestsRepository := [request_u1, request_u3]\<rparr>) \<and>
   map generated_uuid later_calls = [''u4'', ''u5''] \<and>
   verifyRequestsRepository
       (accept_all (store1\<lparr>verifyRequestsRepository := [request_u1, request_u3]\<rparr>) later_calls) =
     [request_u1, request_u3, request_u4] \<and>
   issueRequestsRepository
       (accept_all (store1\<lparr>verifyRequestsRepository := [request_u1, request_u3]\<rparr>) later_calls) =
     [issue_request_u2, issue_request_u5] \<and>
   requestId request_u3 = ''verify:u3'' \<and>
   findRequestByRequestId
       (accept_all (store1\<lparr>verifyRequestsRepository := [request_u1, request_u3]\<rparr>) later_calls)
       ''verify:u3'' = Found (VerifyRequest request_u3) \<and>
   findRequestByRequestId
       (accept_all (store1\<lparr>verifyRequestsRepository := [request_u1, request_u3]\<rparr>) later_calls)
       ''issue:u3'' = Undefined"
proof -
  have c: "decodeVerifyRequestToken store1 1000 ''u3'' (sign (PayloadObject payload1) ''s1'') =
     (Inr request_u3, store1\<lparr>verifyRequestsRepository := [request_u1, request_u3]\<rparr>)"
    by (simp add: service_defs example_defs)
  have g: "map generated_uuid later_calls = [''u4'', ''u5'']"
    by (simp add: later_calls_def)
  have l: "\<forall>c \<in> set later_calls. generated_uuid c \<noteq> ''u3''"
    by (simp add: later_calls_def)
  have e: "\<forall>x \<in> set (verifyRequestsRepository store1). uuid x \<noteq> ''u3''"
    by (simp add: store1_def request_u1_def)
  have a: "accept_all (store1\<lparr>verifyRequestsRepository := [request_u1, request_u3]\<rparr>) later_calls =
      store1\<lparr>verifyRequestsRepository := [request_u1, request_u3, request_u4],
             issueRequestsRepository := [issue_request_u2, issue_request_u5]\<rparr>"
    by (simp add: service_defs example_defs)
  have s: "verifyRequestsRepository
       (accept_all (store1\<lparr>verifyRequestsRepository := [request_u1, request_u3]\<rparr>) later_calls) =
       [request_u1, request_u3, request_u4] \<and>
     issueRequestsRepository
       (accept_all (store1\<lparr>verifyRequestsRepository := [request_u1, request_u3]\<rparr>) later_calls) =
       [issue_request_u2, issue_request_u5]"
    unfolding a by simp
  have i: "\<forall>x \<in> set (issueRequestsRepository
       (accept_all (store1\<lparr>verifyRequestsRepository := [request_u1, request_u3]\<rparr>) later_calls)).
       uuid x \<noteq> ''u3''"
    unfolding a by (simp add: issue_request_u2_def issue_request_u5_def)
  show ?thesis
    using created_request_resolves [of store1 1000 "''u3''"
        "sign (PayloadObject payload1) ''s1''" request_u3
        "store1\<lparr>verifyRequestsRepository := [request_u1, request_u3]\<rparr>" later_calls]
      c g l e s i
    by simp
qed




text \<open>
  Claim C6. A token of a known organization, signed with its secret and issued at time
  \<open>issued\<close>, is rejected by \<open>decodeAndVerifyJwt\<close> when the clock is more than 300 seconds
  past \<open>issued\<close>, and is accepted, with its payload and the organization as result, when the
  clock is 299 seconds past \<open>issued\<close>.
\<close>

theorem max_age_boundary:
  "names_issuer st org P \<and> iat P = Some issued \<longrightarrow>
     (clock > issued + 300 \<longrightarrow>
        decodeAndVerifyJwt st clock (sign (PayloadObject P) (sharedSecret org)) =
          (Inl InvalidRequestJWT, st\<lparr>logger := logger st @ [TokenExpiredError]\<rparr>)) \<and>
     (clock = issued + 299 \<longrightarrow>
        decodeAndVerifyJwt st clock (sign (PayloadObject P) (sharedSecret org)) =
          (Inr (P, org), st))"
  by (auto simp add: decodeAndVerifyJwt_def try_sign JWT_MAX_AGE_def)

theorem max_age_boundary_witness:
  "names_issuer store0 org1 payload1 \<and> iat payload1 = Some 1000 \<and>
   decodeAndVerifyJwt store0 1301 (sign (PayloadObject payload1) ''s1'') =
     (Inl InvalidRequestJWT, store0\<lparr>logger := [TokenExpiredError]\<rparr>) \<and>
   decodeAndVerifyJwt store0 1299 (sign (PayloadObject payload1) ''s1'') =
     (Inr (payload1, org1), store0)"
proof -
  have a: "names_issuer store0 org1 payload1 \<and> iat payload1 = Some 1000"
    by (simp add: service_defs example_defs)
  have s: "sharedSecret org1 = ''s1'' \<and> logger store0 = []"
    by (simp add: example_defs)
  show ?thesis
    using max_age_boundary [of store0 org1 payload1 1000 1301]
      max_age_boundary [of store0 org1 payload1 1000 1299] a s
    by simp
qed

text \<open>
  Claim C7, amended. \<open>findRequestByRequestId\<close> cuts its input at every colon; the type tag
  is the text before the first colon and the uuid segment is the text between the first
  and the second colon (up to the end when there is no second colon), whatever follows a
  second colon being ignored. The result is \<open>Null\<close> when the tag is neither \<open>verify\<close> nor
  \<open>issue\<close> or the uuid segment is empty; otherwise it is the lookup of the uuid segment in
  the store the tag selects, which is \<open>Undefined\<close> when no row of that store has the uuid.
  The function has no failing result.
\<close>

theorem findRequestByRequestId_segments:
  "findRequestByRequestId st rid =
     (if tag_segment rid = ''verify'' \<and> uuid_segment rid \<noteq> []
        then findVerifyRequestByIdentifier st (uuid_segment rid)
      else if tag_segment rid = ''issue'' \<and> uuid_segment rid \<noteq> []
        then findIssueRequestByIdentifier st (uuid_segment rid)
      else Null) \<and>
   ((\<forall>x \<in> set (verifyRequestsRepository st). uuid x \<noteq> u) \<longrightarrow>
      findVerifyRequestByIdentifier st u = Undefined) \<and>
   ((\<forall>x \<in> set (issueRequestsRepository st). uuid x \<noteq> u) \<longrightarrow>
      findIssueRequestByIdentifier st u = Undefined)"
proof -
  have "findVerifyRequestByIdentifier st u = Undefined"
    if "\<forall>x \<in> set (verifyRequestsRepository st). uuid x \<noteq> u"
    using find_absent [of "verifyRequestsRepository st" "\<lambda>x. uuid x = u"] that
    by (simp add: findVerifyRequestByIdentifier_def findOne_def map_result_def)
  moreover have "findIssueRequestByIdentifier st u = Undefined"
    if "\<forall>x \<in> set (issueRequestsRepository st). uuid x \<noteq> u"
    using find_absent [of "issueRequestsRepository st" "\<lambda>x. uuid x = u"] that
    by (simp add: findIssueRequestByIdentifier_def findOne_def map_result_def)
  moreover have "findRequestByRequestId st rid =
     (if tag_segment rid = ''verify'' \<and> uuid_segment rid \<noteq> []
        then findVerifyRequestByIdentifier st (uuid_segment rid)
      else if tag_segment rid = ''issue'' \<and> uuid_segment rid \<noteq> []
        then findIssueRequestByIdentifier st (uuid_segment rid)
      else Null)"
    by (simp add: findRequestByRequestId_parse CredentialVerifyRequest_requestType_def
        CredentialIssueRequest_requestType_def)
  ultimately show ?thesis by blast
qed

theorem findRequestByRequestId_segments_witness:
  "findRequestByRequestId store1 ''bogus:123'' = Null \<and>
   findRequestByRequestId store1 ''verify:'' = Null \<and>
   findRequestByRequestId store1 ''verify:u1'' = Found (VerifyRequest request_u1) \<and>
   findRequestByRequestId store1 ''issue:u2'' = Found (IssueRequest issue_request_u2) \<and>
   findRequestByRequestId store1 ''verify:u2'' = Undefined \<and>
   findRequestByRequestId store1 ''issue:u1'' = Undefined"
proof -
  have seg:
    "tag_segment ''bogus:123'' = ''bogus'' \<and> uuid_segment ''bogus:123'' = ''123'' \<and>
     tag_segment ''verify:'' = ''verify'' \<and> uuid_segment ''verify:'' = [] \<and>
     tag_segment ''verify:u1'' = ''verify'' \<and> uuid_segment ''verify:u1'' = ''u1'' \<and>
     tag_segment ''issue:u2'' = ''issue'' \<and> uuid_segment ''issue:u2'' = ''u2'' \<and>
     tag_segment ''verify:u2'' = ''verify'' \<and> uuid_segment ''verify:u2'' = ''u2'' \<and>
     tag_segment ''issue:u1'' = ''issue'' \<and> uuid_segment ''issue:u1'' = ''u1''"
    by (simp add: tag_segment_def uuid_segment_def)
  have rows:
    "findVerifyRequestByIdentifier store1 ''u1'' = Found (VerifyRequest request_u1) \<and>
     findIssueRequestByIdentifier store1 ''u2'' = Found (IssueRequest issue_request_u2) \<and>
     (\<forall>x \<in> set (verifyRequestsRepository store1). uuid x \<noteq> ''u2'') \<and>
     (\<forall>x \<in> set (issueRequestsRepository store1). uuid x \<noteq> ''u1'')"
    by (simp add: findVerifyRequestByIdentifier_def findIssueRequestByIdentifier_def
        findOne_def map_result_def example_defs)
  show ?thesis
    using findRequestByRequestId_segments [of store1 "''bogus:123''" "''u2''"]
      findRequestByRequestId_segments [of store1 "''verify:''" "''u1''"]
      findRequestByRequestId_segments [of store1 "''verify:u1''" "''u2''"]
      findRequestByRequestId_segments [of store1 "''issue:u2''" "''u1''"]
      findRequestByRequestId_segments [of store1 "''verify:u2''" "''u2''"]
      findRequestByRequestId_segments [of store1 "''issue:u1''" "''u1''"]
      seg rows
    by simp
qed

text \<open>
  Claim C7 as stated fails on an input with a second colon. Everything after the first
  colon of \<open>verify:u1:x\<close> is \<open>u1:x\<close>, which is the uuid of no verify request, yet
  \<open>findRequestByRequestId\<close> returns the request whose uuid is \<open>u1\<close>.
\<close>

theorem second_delimiter_ignored:
  "after_first_delimiter ''verify:u1:x'' = ''u1:x'' \<and>
   findVerifyRequestByIdentifier store1 ''u1:x'' = Undefined \<and>
   findRequestByRequestId store1 ''verify:u1:x'' = Found (VerifyRequest request_u1)"
  by (simp add: lookup_defs example_defs)

text \<open>
  Claim C8. The request that \<open>decodeVerifyRequestToken\<close> or \<open>decodeIssueRequestToken\<close>
  creates has a credential type whose organization is the request's requestor.
\<close>

theorem created_type_owned_by_requestor:
  "(decodeVerifyRequestToken st clock generated token = (Inr r, st') \<longrightarrow>
      organization (type r) = requestor r \<and> r \<in> set (verifyRequestsRepository st')) \<and>
   (decodeIssueRequestToken st clock generated token' = (Inr r', st'') \<longrightarrow>
      organization (type r') = requestor r' \<and> r' \<in> set (issueRequestsRepository st''))"
  by (auto simp: decodeVerifyRequestToken_def decodeIssueRequestToken_def Let_def
      split: prod.splits sum.splits dest: findOneOrFail_holds)

theorem created_type_owned_by_requestor_witness:
  "decodeVerifyRequestToken store0 1000 ''u1'' (sign (PayloadObject payload1) ''s1'') =
     (Inr request_u1, store0\<lparr>verifyRequestsRepository := [request_u1]\<rparr>) \<and>
   decodeIssueRequestToken store0 1000 ''u2'' (sign (PayloadObject payload2) ''s1'') =
     (Inr issue_request_u2, store0\<lparr>issueRequestsRepository := [issue_request_u2]\<rparr>) \<and>
   organization (type request_u1) = requestor request_u1 \<and>
   organization (type issue_request_u2) = requestor issue_request_u2"
proof -
  have v: "decodeVerifyRequestToken store0 1000 ''u1'' (sign (PayloadObject payload1) ''s1'') =
     (Inr request_u1, store0\<lparr>verifyRequestsRepository := [request_u1]\<rparr>)"
    by (simp add: service_defs example_defs)
  have i: "decodeIssueRequestToken store0 1000 ''u2'' (sign (PayloadObject payload2) ''s1'') =
     (Inr issue_request_u2, store0\<lparr>issueRequestsRepository := [issue_request_u2]\<rparr>)"
    by (simp add: service_defs example_defs)
  show ?thesis
    using
      created_type_owned_by_requestor [where st = store0 and clock = 1000
        and generated = "''u1''" and token = "sign (PayloadObject payload1) ''s1''"
        and r = request_u1 and st' = "store0\<lparr>verifyRequestsRepository := [request_u1]\<rparr>"
        and token' = NotAJwt and r' = issue_request_u2 and st'' = store0]
      created_type_owned_by_requestor [where st = store0 and clock = 1000
        and generated = "''u2''" and token' = "sign (PayloadObject payload2) ''s1''"
        and r' = issue_request_u2
        and st'' = "store0\<lparr>issueRequestsRepository := [issue_request_u2]\<rparr>"
        and token = "NotAJwt :: CredentialVerifyRequestData jwt" and r = request_u1
        and st' = store0]
      v i
    by simp
qed

text \<open>
  Claim C9 asks that the endpoint encode an outcome token with a failure status and
  notify the session of the request's \<open>requestId\<close> when the connector's
  disclosure-handling step fails. The endpoint does not: on the request \<open>request_u1\<close> and a
  connector whose step rejects, it ends with that rejection, and the gateway, empty
  before the call, is empty after it.
\<close>

theorem failed_disclosure_not_notified:
  "handleVerifyCredentialDisclosure failing_connector request_u1 ''body'' = Inl ''rejected'' \<and>
   handleCredentialVerifyDisclosure example_encode [] failing_connector request_u1 ''body'' =
     (Inl ''rejected'', [])"
  by (simp add: handleCredentialVerifyDisclosure_def failing_connector_def)

text \<open>
  Claim C10. On an input whose text before the first colon is \<open>verify\<close>,
  \<open>findRequestByRequestId\<close> and \<open>findVerifyRequestByRequestId\<close> return the same; on an input
  whose text before the first colon is \<open>issue\<close>, \<open>findRequestByRequestId\<close> and
  \<open>findIssueRequestByRequestId\<close> return the same.
\<close>

theorem lookups_agree_on_tag:
  "(tag_segment rid = ''verify'' \<longrightarrow>
      findRequestByRequestId st rid = findVerifyRequestByRequestId st rid) \<and>
   (tag_segment rid = ''issue'' \<longrightarrow>
      findRequestByRequestId st rid = findIssueRequestByRequestId st rid)"
  using tag_agree_verify [of rid st] tag_agree_issue [of rid st]
  by (simp add: CredentialVerifyRequest_requestType_def CredentialIssueRequest_requestType_def)

theorem lookups_agree_on_tag_witness:
  "tag_segment ''verify:u1:x'' = ''verify'' \<and> tag_segment ''issue:u2'' = ''issue'' \<and>
   findVerifyRequestByRequestId store1 ''verify:u1:x'' = Found (VerifyRequest request_u1) \<and>
   findRequestByRequestId store1 ''verify:u1:x'' = Found (VerifyRequest request_u1) \<and>
   findIssueRequestByRequestId store1 ''issue:u2'' = Found (IssueRequest issue_request_u2) \<and>
   findRequestByRequestId store1 ''issue:u2'' = Found (IssueRequest issue_request_u2)"
proof -
  have t: "tag_segment ''verify:u1:x'' = ''verify'' \<and> tag_segment ''issue:u2'' = ''issue''"
    by (simp add: tag_segment_def)
  have v: "findVerifyRequestByRequestId store1 ''verify:u1:x'' =
      Found (VerifyRequest request_u1)"
    by (simp add: lookup_defs example_defs)
  have i: "findIssueRequestByRequestId store1 ''issue:u2'' =
      Found (IssueRequest issue_request_u2)"
    by (simp add: lookup_defs example_defs)
  show ?thesis
    using lookups_agree_on_tag [of "''verify:u1:x''" store1]
      lookups_agree_on_tag [of "''issue:u2''" store1] t v i
    by simp
qed

end
